theory Spec2Isabelle
  imports Main
begin

section \<open>JavaScript values tested for truthiness\<close>

text \<open>
  The error handler tests \<^verbatim>\<open>error.statusCode\<close> of an arbitrary thrown object with
  \<^verbatim>\<open>||\<close>. The property may be absent or hold any primitive, so it is a small sum of
  JavaScript primitives with JavaScript's truthiness.
\<close>

datatype js_value = JUndefined | JNull | JBool bool | JNum int | JStr string

fun truthy :: "js_value \<Rightarrow> bool" where
  "truthy JUndefined = False"
| "truthy JNull = False"
| "truthy (JBool b) = b"
| "truthy (JNum n) = (n \<noteq> 0)"
| "truthy (JStr s) = (s \<noteq> [])"

section \<open>utils/api-error.js and utils/api-response.js\<close>

text \<open>
  \<^verbatim>\<open>class ApiError extends Error\<close>. The constructor assigns \<^verbatim>\<open>statusCode\<close>,
  \<^verbatim>\<open>data = null\<close>, \<^verbatim>\<open>message\<close>, \<^verbatim>\<open>success = false\<close> and \<^verbatim>\<open>errors\<close>; the stack is the
  one passed in when that string is truthy, and the one captured by
  \<^verbatim>\<open>Error.captureStackTrace\<close> otherwise. An argument left out (or \<^verbatim>\<open>undefined\<close>) takes
  its default: the callers below write the defaults \<open>[]\<close> and \<open>''''\<close> out.
\<close>

datatype stack_trace = Captured | Given string

record api_error =
  e_statusCode :: int
  e_data :: "unit option"
  e_message :: string
  e_success :: bool
  e_errors :: "string list"
  e_stack :: stack_trace

definition ApiError :: "int \<Rightarrow> string \<Rightarrow> string list \<Rightarrow> string \<Rightarrow> api_error" where
  "ApiError statusCode message errors stack =
     \<lparr> e_statusCode = statusCode,
       e_data = None,
       e_message = message,
       e_success = False,
       e_errors = errors,
       e_stack = (if stack \<noteq> [] then Given stack else Captured) \<rparr>"

text \<open>\<^verbatim>\<open>class ApiResponse\<close>: \<^verbatim>\<open>this.success = statusCode < 400\<close>.\<close>

record 'd api_response =
  r_statusCode :: int
  r_data :: 'd
  r_message :: string
  r_success :: bool

definition ApiResponse :: "int \<Rightarrow> 'd \<Rightarrow> string \<Rightarrow> 'd api_response" where
  "ApiResponse statusCode payload message =
     \<lparr> r_statusCode = statusCode,
       r_data = payload,
       r_message = message,
       r_success = (statusCode < 400) \<rparr>"

section \<open>middlewares/error.middleware.js\<close>

text \<open>
  What reaches the handler is either an \<^verbatim>\<open>ApiError\<close> instance or some other thrown
  error. Of the latter the handler reads \<^verbatim>\<open>statusCode\<close>, whether it is an
  \<^verbatim>\<open>instanceof mongoose.Error\<close>, \<^verbatim>\<open>message\<close>, \<^verbatim>\<open>errors\<close> (absent is \<open>None\<close>) and
  \<^verbatim>\<open>stack\<close> (absent is the empty string).
\<close>

record native_error =
  n_statusCode :: js_value
  n_isMongooseError :: bool
  n_message :: string
  n_errors :: "string list option"
  n_stack :: string

datatype thrown = ApiErr api_error | NativeErr native_error

text \<open>
  The JSON body is \<^verbatim>\<open>{...error, message: error.message, ...(development ? {stack} : {})}\<close>.
  The spread copies the own enumerable properties of the \<^verbatim>\<open>ApiError\<close>: \<^verbatim>\<open>statusCode\<close>,
  \<^verbatim>\<open>data\<close>, \<^verbatim>\<open>success\<close>, \<^verbatim>\<open>errors\<close>. An \<^verbatim>\<open>Error\<close>'s own \<^verbatim>\<open>message\<close> and \<^verbatim>\<open>stack\<close> are
  not enumerable, so \<^verbatim>\<open>message\<close> is in the body through the explicit key only, and
  \<^verbatim>\<open>stack\<close> through the conditional spread only (\<open>None\<close>: the key is absent).
\<close>

record error_body =
  b_statusCode :: int
  b_data :: "unit option"
  b_success :: bool
  b_errors :: "string list"
  b_message :: string
  b_stack :: "stack_trace option"

record 'b http_response =
  http_status :: int
  http_body :: 'b

text \<open>
  \<^verbatim>\<open>error.statusCode || error instanceof mongoose.Error ? 400 : 500\<close> parses as
  \<^verbatim>\<open>(error.statusCode || error instanceof mongoose.Error) ? 400 : 500\<close>: the conditional
  operator binds weaker than \<^verbatim>\<open>||\<close>. The first argument is \<^verbatim>\<open>process.env.NODE_ENV\<close>
  (\<open>None\<close> when unset). The \<^verbatim>\<open>console.error\<close> line writes a log only and is left out.
\<close>

definition errorHandler :: "string option \<Rightarrow> thrown \<Rightarrow> error_body http_response" where
  "errorHandler NODE_ENV err =
     (let error =
            (case err of
               ApiErr e \<Rightarrow> e
             | NativeErr n \<Rightarrow>
                 (let statusCode =
                        (if truthy (n_statusCode n) \<or> n_isMongooseError n then 400 else 500);
                      message =
                        (if n_message n \<noteq> [] then n_message n else ''Something went wrong'')
                  in ApiError statusCode message
                       (case n_errors n of Some es \<Rightarrow> es | None \<Rightarrow> []) (n_stack n)));
          response =
            \<lparr> b_statusCode = e_statusCode error,
              b_data = e_data error,
              b_success = e_success error,
              b_errors = e_errors error,
              b_message = e_message error,
              b_stack = (if NODE_ENV = Some ''development'' then Some (e_stack error) else None) \<rparr>
      in \<lparr> http_status = e_statusCode error, http_body = response \<rparr>)"

section \<open>routes/note.routes.js\<close>

text \<open>
  Modelled from the spec: \<^verbatim>\<open>utils/constants.js\<close> (\<^verbatim>\<open>UserRolesEnum\<close>,
  \<^verbatim>\<open>AvailableUserRoles\<close>) is not among the sources. The spec gives the closed role set
  ADMIN, PROJECT\_ADMIN, MEMBER, and calls the set the read routes take the enumerated role
  set: \<open>AvailableUserRoles\<close> lists every role.
\<close>

datatype role = ADMIN | PROJECT_ADMIN | MEMBER

definition AvailableUserRoles :: "role list" where
  "AvailableUserRoles = [ADMIN, PROJECT_ADMIN, MEMBER]"

text \<open>
  The functions the router registers, by name. \<^verbatim>\<open>validateProjectPermission(roles)\<close> is a
  factory: the array it is called with is part of the registered middleware.
\<close>

datatype controller = GetNotes | CreateNote | GetNoteById | UpdateNote | DeleteNote

datatype middleware =
    verifyJWT
  | validateProjectPermission "role list"
  | notesValidator
  | validate
  | Handler controller

datatype http_method = GET | POST | PUT | DELETE | PATCH | OPTIONS

datatype segment = Param string | Lit string

text \<open>
  An Express router is a stack of layers in registration order: \<^verbatim>\<open>router.use(f)\<close> adds a
  layer that matches every path, \<^verbatim>\<open>router.route(path).get(...).post(...)\<close> a layer that
  matches the path pattern and holds, per method, the functions given.
\<close>

datatype layer =
    Use middleware
  | Route "segment list" "(http_method \<times> middleware list) list"

definition noteRouter :: "layer list" where
  "noteRouter =
     [ Use verifyJWT,
       Route [Param ''projectId'']
         [ (GET, [validateProjectPermission AvailableUserRoles, Handler GetNotes]),
           (POST, [validateProjectPermission [ADMIN], notesValidator, validate,
                   Handler CreateNote]) ],
       Route [Param ''projectId'', Lit ''n'', Param ''noteId'']
         [ (GET, [validateProjectPermission AvailableUserRoles, Handler GetNoteById]),
           (PUT, [validateProjectPermission [ADMIN], notesValidator, validate,
                  Handler UpdateNote]),
           (DELETE, [validateProjectPermission [ADMIN], Handler DeleteNote]) ] ]"

text \<open>
  A request path is its list of segments below the router's mount point, split at the
  slashes: a trailing slash leaves an empty last segment. \<^verbatim>\<open>Router()\<close> is called with no
  options, so the router is neither strict nor case sensitive: one trailing slash is
  ignored, and a literal segment is compared without regard to the case of ASCII letters.
  A parameter takes one non-empty segment.
\<close>

definition lower :: "char \<Rightarrow> char" where
  "lower c =
     (let n = (of_char c :: nat) in if 65 \<le> n \<and> n \<le> 90 then char_of (n + 32) else c)"

definition strip_slash :: "string list \<Rightarrow> string list" where
  "strip_slash path = (if path \<noteq> [] \<and> last path = [] then butlast path else path)"

fun matches_segments :: "segment list \<Rightarrow> string list \<Rightarrow> bool" where
  "matches_segments [] [] = True"
| "matches_segments (Param _ # ps) (s # ss) = (s \<noteq> [] \<and> matches_segments ps ss)"
| "matches_segments (Lit l # ps) (s # ss) = (map lower s = map lower l \<and> matches_segments ps ss)"
| "matches_segments _ _ = False"

definition matches :: "segment list \<Rightarrow> string list \<Rightarrow> bool" where
  "matches pat path = matches_segments pat (strip_slash path)"

fun handlers_of :: "layer \<Rightarrow> http_method \<Rightarrow> string list \<Rightarrow> middleware list" where
  "handlers_of (Use f) m path = [f]"
| "handlers_of (Route pat hs) m path =
     (if matches pat path then concat (map snd (filter (\<lambda>h. fst h = m) hs)) else [])"

text \<open>
  The functions a request meets, in order, as long as each one calls \<^verbatim>\<open>next()\<close>: those of
  every matching layer, in registration order.
\<close>

definition chain :: "layer list \<Rightarrow> http_method \<Rightarrow> string list \<Rightarrow> middleware list" where
  "chain router m path = concat (map (\<lambda>l. handlers_of l m path) router)"

text \<open>
  What one function does with the request: it calls \<^verbatim>\<open>next()\<close>, or it throws (or calls
  \<^verbatim>\<open>next(err)\<close>) and the request goes to the error handler, or it sends the response.
  \<open>run\<close> gives the functions invoked, in order: the walk stops at the first one that does
  not call \<^verbatim>\<open>next()\<close>.
\<close>

datatype outcome = Next | Throw | Respond

fun run :: "(middleware \<Rightarrow> outcome) \<Rightarrow> middleware list \<Rightarrow> middleware list" where
  "run out [] = []"
| "run out (f # fs) = f # (case out f of Next \<Rightarrow> run out fs | Throw \<Rightarrow> [] | Respond \<Rightarrow> [])"



section \<open>controllers/note.controllers.js\<close>

text \<open>
  A collection holds its documents by \<^verbatim>\<open>_id\<close>, an ObjectId (taken as a number), in
  insertion order. The controllers write three fields of a note (\<^verbatim>\<open>project\<close>,
  \<^verbatim>\<open>content\<close>, \<^verbatim>\<open>createdBy\<close>) and select three fields of a user when they populate
  \<^verbatim>\<open>createdBy\<close>; of a project they test the existence only, so the project document is a
  type parameter.
\<close>

type_synonym oid = nat

type_synonym 'a collection = "(oid \<times> 'a) list"

record note_doc =
  note_project :: oid
  note_content :: string
  note_createdBy :: oid

record user_doc =
  username :: string
  fullName :: string
  avatar :: string

record populated_note =
  pn_id :: oid
  pn_project :: oid
  pn_content :: string
  pn_createdBy :: "(oid \<times> user_doc) option"

record 'p db =
  Project :: "'p collection"
  ProjectNote :: "note_doc collection"
  User :: "user_doc collection"

text \<open>
  The ids of a request are the strings of its path. A Mongoose query by id casts the
  string to an ObjectId first, and throws a \<^verbatim>\<open>CastError\<close> when the string is no ObjectId:
  a \<^verbatim>\<open>mongoose.Error\<close> with no \<^verbatim>\<open>statusCode\<close> and no \<^verbatim>\<open>errors\<close> (its message and stack
  are abbreviated here). Which strings are ObjectIds is Mongoose's matter, so the cast
  is the first argument of every function that queries by an id string (\<open>None\<close>: the
  string is no ObjectId).
\<close>

definition cast_error :: native_error where
  "cast_error =
     \<lparr> n_statusCode = JUndefined, n_isMongooseError = True,
       n_message = ''Cast to ObjectId failed'', n_errors = None, n_stack = ''CastError'' \<rparr>"

text \<open>
  The Mongoose calls the controllers make. \<^verbatim>\<open>Model.findById\<close> gives the document or
  \<^verbatim>\<open>null\<close> (\<open>findByObjectId\<close> when it is called with an ObjectId, as in
  \<^verbatim>\<open>ProjectNote.findById(note._id)\<close>, \<open>findById\<close> when it is called with a string of the
  request); \<^verbatim>\<open>ProjectNote.find({project})\<close> gives the notes of a project; \<^verbatim>\<open>populate\<close>
  replaces \<^verbatim>\<open>createdBy\<close> by the selected fields of that user (\<^verbatim>\<open>null\<close> when there is none);
  \<^verbatim>\<open>create\<close> stores the document under a new id; \<^verbatim>\<open>findByIdAndUpdate\<close> with
  \<^verbatim>\<open>{new: true}\<close> and \<^verbatim>\<open>findByIdAndDelete\<close> change at most the one document of that id and
  give the updated, respectively the removed, document or \<^verbatim>\<open>null\<close>.
\<close>

definition findByObjectId :: "'a collection \<Rightarrow> oid \<Rightarrow> (oid \<times> 'a) option" where
  "findByObjectId c i = map_option (Pair i) (map_of c i)"

definition findById ::
    "(string \<Rightarrow> oid option) \<Rightarrow> 'a collection \<Rightarrow> string \<Rightarrow> native_error + (oid \<times> 'a) option" where
  "findById cast c s =
     (case cast s of
        None \<Rightarrow> Inl cast_error
      | Some i \<Rightarrow> Inr (findByObjectId c i))"

definition find_by_project :: "note_doc collection \<Rightarrow> oid \<Rightarrow> (oid \<times> note_doc) list" where
  "find_by_project c p = filter (\<lambda>d. note_project (snd d) = p) c"

definition populate :: "user_doc collection \<Rightarrow> oid \<times> note_doc \<Rightarrow> populated_note" where
  "populate us d =
     \<lparr> pn_id = fst d,
       pn_project = note_project (snd d),
       pn_content = note_content (snd d),
       pn_createdBy = findByObjectId us (note_createdBy (snd d)) \<rparr>"

definition new_id :: "'a collection \<Rightarrow> oid" where
  "new_id c = Suc (fold max (map fst c) 0)"

definition create :: "'a collection \<Rightarrow> 'a \<Rightarrow> (oid \<times> 'a) \<times> 'a collection" where
  "create c d = (let i = new_id c in ((i, d), c @ [(i, d)]))"

fun update_first :: "oid \<Rightarrow> ('a \<Rightarrow> 'a) \<Rightarrow> 'a collection \<Rightarrow> 'a collection" where
  "update_first i f [] = []"
| "update_first i f (d # c) = (if fst d = i then (i, f (snd d)) # c else d # update_first i f c)"

fun remove_first :: "oid \<Rightarrow> 'a collection \<Rightarrow> 'a collection" where
  "remove_first i [] = []"
| "remove_first i (d # c) = (if fst d = i then c else d # remove_first i c)"

definition findByIdAndUpdate ::
    "(string \<Rightarrow> oid option) \<Rightarrow> 'a collection \<Rightarrow> string \<Rightarrow> ('a \<Rightarrow> 'a)
       \<Rightarrow> native_error + ((oid \<times> 'a) option \<times> 'a collection)" where
  "findByIdAndUpdate cast c s f =
     (case cast s of
        None \<Rightarrow> Inl cast_error
      | Some i \<Rightarrow> (let c' = update_first i f c in Inr (findByObjectId c' i, c')))"

definition findByIdAndDelete ::
    "(string \<Rightarrow> oid option) \<Rightarrow> 'a collection \<Rightarrow> string
       \<Rightarrow> native_error + ((oid \<times> 'a) option \<times> 'a collection)" where
  "findByIdAndDelete cast c s =
     (case cast s of
        None \<Rightarrow> Inl cast_error
      | Some i \<Rightarrow> Inr (findByObjectId c i, remove_first i c))"

text \<open>
  What a controller reads of the request: \<^verbatim>\<open>req.params.projectId\<close> and
  \<^verbatim>\<open>req.params.noteId\<close> (strings of the path), \<^verbatim>\<open>req.body.content\<close> and
  \<^verbatim>\<open>req.user._id\<close> (the ObjectId of the authenticated user).
\<close>

record request =
  param_projectId :: string
  param_noteId :: string
  body_content :: string
  user_id :: oid

datatype payload =
    NoteList "populated_note list"
  | PopulatedNote "populated_note option"
  | RemovedNote "oid \<times> note_doc"

text \<open>
  A controller wrapped in \<^verbatim>\<open>asyncHandler\<close> either sends a response
  (\<^verbatim>\<open>res.status(s).json(body)\<close>, \<open>Inr\<close>) or passes what it threw, or what a query it
  awaited threw, to \<^verbatim>\<open>next\<close> (\<open>Inl\<close>), and leaves the database in some state.
  \<^verbatim>\<open>new mongoose.Types.ObjectId(projectId)\<close> is evaluated after \<^verbatim>\<open>Project.findById\<close> has
  found the project of that id, and is the id of that project.
\<close>

type_synonym 'p handled = "(thrown + payload api_response http_response) \<times> 'p db"

definition getNotes :: "(string \<Rightarrow> oid option) \<Rightarrow> request \<Rightarrow> 'p db \<Rightarrow> 'p handled" where
  "getNotes cast req st =
     (let projectId = param_projectId req in
      case findById cast (Project st) projectId of
        Inl err \<Rightarrow> (Inl (NativeErr err), st)
      | Inr None \<Rightarrow> (Inl (ApiErr (ApiError 404 ''Project not found'' [] [])), st)
      | Inr (Some project) \<Rightarrow>
          (let found = map (populate (User st)) (find_by_project (ProjectNote st) (fst project))
           in (Inr \<lparr> http_status = 200,
                     http_body = ApiResponse 200 (NoteList found) ''Notes fetched successfully'' \<rparr>,
               st)))"

definition createNote :: "(string \<Rightarrow> oid option) \<Rightarrow> request \<Rightarrow> 'p db \<Rightarrow> 'p handled" where
  "createNote cast req st =
     (let projectId = param_projectId req; content = body_content req in
      case findById cast (Project st) projectId of
        Inl err \<Rightarrow> (Inl (NativeErr err), st)
      | Inr None \<Rightarrow> (Inl (ApiErr (ApiError 404 ''Project not found'' [] [])), st)
      | Inr (Some project) \<Rightarrow>
          (let (note, stored) =
                 create (ProjectNote st)
                   \<lparr> note_project = fst project, note_content = content,
                     note_createdBy = user_id req \<rparr>;
               st' = st\<lparr>ProjectNote := stored\<rparr>;
               populatedNote =
                 map_option (populate (User st')) (findByObjectId (ProjectNote st') (fst note))
           in (Inr \<lparr> http_status = 201,
                     http_body =
                       ApiResponse 201 (PopulatedNote populatedNote)
                         ''Note created successfully'' \<rparr>,
               st')))"

definition updateNote :: "(string \<Rightarrow> oid option) \<Rightarrow> request \<Rightarrow> 'p db \<Rightarrow> 'p handled" where
  "updateNote cast req st =
     (let noteId = param_noteId req; content = body_content req in
      case findById cast (ProjectNote st) noteId of
        Inl err \<Rightarrow> (Inl (NativeErr err), st)
      | Inr None \<Rightarrow> (Inl (ApiErr (ApiError 404 ''Note not found'' [] [])), st)
      | Inr (Some existingNote) \<Rightarrow>
          (case findByIdAndUpdate cast (ProjectNote st) noteId
                  (\<lambda>d. d\<lparr>note_content := content\<rparr>) of
             Inl err \<Rightarrow> (Inl (NativeErr err), st)
           | Inr (note, stored) \<Rightarrow>
               (let st' = st\<lparr>ProjectNote := stored\<rparr>
                in (Inr \<lparr> http_status = 200,
                          http_body =
                            ApiResponse 200
                              (PopulatedNote (map_option (populate (User st')) note))
                              ''Note updated successfully'' \<rparr>,
                    st'))))"

definition deleteNote :: "(string \<Rightarrow> oid option) \<Rightarrow> request \<Rightarrow> 'p db \<Rightarrow> 'p handled" where
  "deleteNote cast req st =
     (let noteId = param_noteId req in
      case findByIdAndDelete cast (ProjectNote st) noteId of
        Inl err \<Rightarrow> (Inl (NativeErr err), st)
      | Inr (note, stored) \<Rightarrow>
          (let st' = st\<lparr>ProjectNote := stored\<rparr>
           in case note of
                None \<Rightarrow> (Inl (ApiErr (ApiError 404 ''Note not found'' [] [])), st')
              | Some removed \<Rightarrow>
                  (Inr \<lparr> http_status = 200,
                         http_body =
                           ApiResponse 200 (RemovedNote removed) ''Note deleted successfully'' \<rparr>,
                   st')))"

definition getNoteById :: "(string \<Rightarrow> oid option) \<Rightarrow> request \<Rightarrow> 'p db \<Rightarrow> 'p handled" where
  "getNoteById cast req st =
     (let noteId = param_noteId req in
      case findById cast (ProjectNote st) noteId of
        Inl err \<Rightarrow> (Inl (NativeErr err), st)
      | Inr found \<Rightarrow>
          (case map_option (populate (User st)) found of
             None \<Rightarrow> (Inl (ApiErr (ApiError 404 ''Note not found'' [] [])), st)
           | Some note \<Rightarrow>
               (Inr \<lparr> http_status = 200,
                      http_body =
                        ApiResponse 200 (PopulatedNote (Some note))
                          ''Note fetched successfully'' \<rparr>,
                st)))"

section \<open>The permission gate and the credential verifier\<close>

text \<open>
  \<^verbatim>\<open>middlewares/auth.middleware.js\<close>, which defines \<^verbatim>\<open>verifyJWT\<close> and
  \<^verbatim>\<open>validateProjectPermission\<close>, is not among the sources: the router above only registers
  the two. This section follows sections 3, 4.1, 4.2 and 4.3 of the specification.
\<close>

text \<open>
  Modelled from the spec: the Membership of section 3, a tuple (user id, project id, role);
  the membership storage is the table of these rows.
\<close>

record membership =
  m_user :: oid
  m_project :: oid
  m_role :: role

text \<open>
  Modelled from the spec: the invariant of section 3, at most one membership row per
  (user, project) pair.
\<close>

definition unique_membership :: "membership list \<Rightarrow> bool" where
  "unique_membership tbl = distinct (map (\<lambda>m. (m_user m, m_project m)) tbl)"

text \<open>
  Modelled from the spec: the Project Membership Resolver of section 4.2,
  \<^verbatim>\<open>lookup(userId, projectId) -> Role | absent\<close>, a single lookup by the composite key.
\<close>

definition lookup :: "membership list \<Rightarrow> oid \<Rightarrow> oid \<Rightarrow> role option" where
  "lookup tbl userId projectId =
     map_option m_role (List.find (\<lambda>m. m_user m = userId \<and> m_project m = projectId) tbl)"

text \<open>
  Modelled from the spec: the Authorization Decision of section 4.3,
  \<^verbatim>\<open>Allow | Deny(reason)\<close> with the reasons \<^verbatim>\<open>NotAMember\<close> and \<^verbatim>\<open>InsufficientRole\<close>.
\<close>

datatype deny_reason = NotAMember | InsufficientRole

datatype decision = Allow role | Deny deny_reason

text \<open>
  Modelled from the spec: the Permission Gate of section 4.3,
  \<^verbatim>\<open>authorize(identity, projectId, allowedRoles: set<Role>)\<close>, in its four steps: resolve
  the role; no membership is \<^verbatim>\<open>Deny(NotAMember)\<close>; a role outside \<^verbatim>\<open>allowedRoles\<close> is
  \<^verbatim>\<open>Deny(InsufficientRole)\<close>; else \<^verbatim>\<open>Allow(role)\<close>. The membership storage is threaded
  through the call, so that what the gate does to it is part of the result.
\<close>

definition authorize ::
    "membership list \<Rightarrow> oid \<Rightarrow> oid \<Rightarrow> role set \<Rightarrow> decision \<times> membership list" where
  "authorize tbl identity projectId allowedRoles =
     (case lookup tbl identity projectId of
        None \<Rightarrow> (Deny NotAMember, tbl)
      | Some r \<Rightarrow>
          if r \<notin> allowedRoles then (Deny InsufficientRole, tbl) else (Allow r, tbl))"

text \<open>
  Modelled from the spec: the Session Token of section 3, a signed, time-bound credential
  referencing an identity. Decoding belongs to the token library; what it yields is the
  identity, the expiry time and whether the signature is correct for the key in use.
\<close>

record session_token =
  tok_identity :: oid
  tok_exp :: nat
  tok_signature_ok :: bool

text \<open>
  Modelled from the spec: the failure conditions of section 4.1 (no token supplied,
  malformed, signature invalid, expired), which are internal detail, and the single error
  class \<^verbatim>\<open>Unauthenticated\<close> the caller sees.
\<close>

datatype token_fault = Missing | Malformed | BadSignature | Expired

datatype auth_error = Unauthenticated

text \<open>
  Modelled from the spec: the decoding and the checks of section 4.1. The first argument
  is the library's decoder (\<open>None\<close> on a malformed token), the second the current time;
  a token is expired when its \<^verbatim>\<open>exp\<close> is in the past.
\<close>

definition inspect ::
    "(string \<Rightarrow> session_token option) \<Rightarrow> nat \<Rightarrow> string option \<Rightarrow> token_fault + oid" where
  "inspect decode now credential =
     (case credential of
        None \<Rightarrow> Inl Missing
      | Some t \<Rightarrow>
          (case decode t of
             None \<Rightarrow> Inl Malformed
           | Some tok \<Rightarrow>
               if \<not> tok_signature_ok tok then Inl BadSignature
               else if tok_exp tok < now then Inl Expired
               else Inr (tok_identity tok)))"

text \<open>
  Modelled from the spec: the Credential Verifier of section 4.1: given a token, it
  produces an identity or fails with \<^verbatim>\<open>Unauthenticated\<close>.
\<close>

definition verify ::
    "(string \<Rightarrow> session_token option) \<Rightarrow> nat \<Rightarrow> string option \<Rightarrow> auth_error + oid" where
  "verify decode now credential =
     (case inspect decode now credential of
        Inl fault \<Rightarrow> Inl Unauthenticated
      | Inr identity \<Rightarrow> Inr identity)"

section \<open>Inputs used to exercise the definitions\<close>

text \<open>A request whose token \<^verbatim>\<open>verifyJWT\<close> rejects, and one that every middleware lets through.\<close>

definition jwt_rejected :: "middleware \<Rightarrow> outcome" where
  "jwt_rejected f = (if f = verifyJWT then Throw else Next)"

definition all_pass :: "middleware \<Rightarrow> outcome" where
  "all_pass f = (case f of Handler c \<Rightarrow> Respond | _ \<Rightarrow> Next)"

text \<open>
  The cast of the canonical form of an ObjectId, a string of 24 hexadecimal digits, to
  the number it writes; a string of any other length is no ObjectId.
\<close>

definition hex_digits :: "(char \<times> nat) list" where
  "hex_digits =
     [ (CHR ''0'', 0), (CHR ''1'', 1), (CHR ''2'', 2), (CHR ''3'', 3), (CHR ''4'', 4),
       (CHR ''5'', 5), (CHR ''6'', 6), (CHR ''7'', 7), (CHR ''8'', 8), (CHR ''9'', 9),
       (CHR ''a'', 10), (CHR ''b'', 11), (CHR ''c'', 12), (CHR ''d'', 13), (CHR ''e'', 14),
       (CHR ''f'', 15), (CHR ''A'', 10), (CHR ''B'', 11), (CHR ''C'', 12), (CHR ''D'', 13),
       (CHR ''E'', 14), (CHR ''F'', 15) ]"

fun hex_number :: "nat \<Rightarrow> string \<Rightarrow> nat option" where
  "hex_number acc [] = Some acc"
| "hex_number acc (c # cs) =
     (case map_of hex_digits c of
        None \<Rightarrow> None
      | Some d \<Rightarrow> hex_number (16 * acc + d) cs)"

definition objectId :: "string \<Rightarrow> oid option" where
  "objectId s = (if length s = 24 then hex_number 0 s else None)"

text \<open>
  A database with two projects (ids 1 and 2) and a note in each (ids 10 and 11), and a
  request of user 5 on project 1 that names the note of project 2.
\<close>

definition db0 :: "unit db" where
  "db0 =
     \<lparr> Project = [(1, ()), (2, ())],
       ProjectNote =
         [(10, \<lparr> note_project = 1, note_content = ''alpha'', note_createdBy = 5 \<rparr>),
          (11, \<lparr> note_project = 2, note_content = ''beta'', note_createdBy = 6 \<rparr>)],
       User = [(5, \<lparr> username = ''ann'', fullName = ''Ann A'', avatar = ''a.png'' \<rparr>)] \<rparr>"

definition req0 :: request where
  "req0 =
     \<lparr> param_projectId = ''000000000000000000000001'',
       param_noteId = ''00000000000000000000000b'',
       body_content = ''gamma'', user_id = 5 \<rparr>"

definition note11 :: note_doc where
  "note11 = \<lparr> note_project = 2, note_content = ''beta'', note_createdBy = 6 \<rparr>"

text \<open>User 5 is ADMIN of project 1 and MEMBER of project 2.\<close>

definition tbl0 :: "membership list" where
  "tbl0 =
     [ \<lparr> m_user = 5, m_project = 1, m_role = ADMIN \<rparr>,
       \<lparr> m_user = 5, m_project = 2, m_role = MEMBER \<rparr> ]"

text \<open>
  A decoder that knows two tokens, both of user 5 and correctly signed: one expires at
  time 100, the other at time 900.
\<close>

definition decode0 :: "string \<Rightarrow> session_token option" where
  "decode0 t =
     (if t = ''old'' then Some \<lparr> tok_identity = 5, tok_exp = 100, tok_signature_ok = True \<rparr>
      else if t = ''new'' then Some \<lparr> tok_identity = 5, tok_exp = 900, tok_signature_ok = True \<rparr>
      else None)"

section \<open>Properties of the error handler\<close>

text \<open>
  C2, as the code has it. For an error that is not an \<^verbatim>\<open>ApiError\<close> and carries no truthy
  \<^verbatim>\<open>statusCode\<close>, the handler answers with an \<^verbatim>\<open>ApiError\<close>-shaped body (\<^verbatim>\<open>data\<close> null,
  \<^verbatim>\<open>success\<close> false, the error's message or the generic one) whose status is 400 when the
  error is a Mongoose error and 500 otherwise.
\<close>

theorem errorHandler_native_status:
  "\<not> truthy (n_statusCode n) \<Longrightarrow>
     errorHandler env (NativeErr n) =
       (let sc = (if n_isMongooseError n then 400 else 500) in
        \<lparr> http_status = sc,
          http_body =
            \<lparr> b_statusCode = sc, b_data = None, b_success = False,
              b_errors = (case n_errors n of Some es \<Rightarrow> es | None \<Rightarrow> []),
              b_message = (if n_message n \<noteq> [] then n_message n else ''Something went wrong''),
              b_stack =
                (if env = Some ''development''
                 then Some (if n_stack n \<noteq> [] then Given (n_stack n) else Captured)
                 else None) \<rparr> \<rparr>)"
  by (simp add: errorHandler_def ApiError_def Let_def)

theorem errorHandler_native_status_witness:
  "http_status (errorHandler (Some ''production'') (NativeErr cast_error)) = 400
   \<and> http_status (errorHandler (Some ''production'')
         (NativeErr (cast_error\<lparr>n_isMongooseError := False\<rparr>))) = 500"
  using errorHandler_native_status [of cast_error "Some ''production''"]
    errorHandler_native_status [of "cast_error\<lparr>n_isMongooseError := False\<rparr>" "Some ''production''"]
  by (simp add: cast_error_def Let_def)

text \<open>
  C2 with status 500 for every error that is not an \<^verbatim>\<open>ApiError\<close>, a storage error
  included, does not hold: a Mongoose cast error is answered with 400.
\<close>

theorem errorHandler_mongoose_not_500:
  "http_status (errorHandler (Some ''production'') (NativeErr cast_error)) \<noteq> 500"
  by (simp add: errorHandler_def ApiError_def Let_def cast_error_def)

text \<open>
  An error that carries a truthy \<^verbatim>\<open>statusCode\<close> of its own is answered with 400 whatever
  that status code is: \<^verbatim>\<open>||\<close> binds tighter than the conditional operator.
\<close>

lemma errorHandler_own_statusCode:
  "truthy (n_statusCode n) \<Longrightarrow> http_status (errorHandler env (NativeErr n)) = 400"
  by (simp add: errorHandler_def ApiError_def Let_def)

text \<open>
  C8. The body of a response of the error handler has a \<^verbatim>\<open>stack\<close> key exactly when
  \<^verbatim>\<open>NODE_ENV\<close> is \<^verbatim>\<open>development\<close>; in particular it has none in production.
\<close>

theorem stack_only_in_development:
  "(b_stack (http_body (errorHandler env err)) \<noteq> None) = (env = Some ''development'')
   \<and> (env = Some ''production'' \<longrightarrow> b_stack (http_body (errorHandler env err)) = None)"
  by (simp add: errorHandler_def Let_def)

theorem stack_only_in_development_witness:
  "b_stack (http_body (errorHandler (Some ''production'') (NativeErr cast_error))) = None
   \<and> b_stack (http_body (errorHandler (Some ''development'') (NativeErr cast_error))) \<noteq> None"
  using stack_only_in_development [of "Some ''production''" "NativeErr cast_error"]
    stack_only_in_development [of "Some ''development''" "NativeErr cast_error"]
  by simp

text \<open>
  C10. An \<^verbatim>\<open>ApiError\<close> has \<^verbatim>\<open>success\<close> false and \<^verbatim>\<open>data\<close> null; an \<^verbatim>\<open>ApiResponse\<close> with a
  status code below 400 has \<^verbatim>\<open>success\<close> true; the error handler's HTTP status is the
  \<^verbatim>\<open>statusCode\<close> of the \<^verbatim>\<open>ApiError\<close> it was given or built (which is also the body's
  \<^verbatim>\<open>statusCode\<close>), and the body's \<^verbatim>\<open>success\<close> is false.
\<close>

theorem error_responses_never_successful:
  "e_success (ApiError sc msg es st) = False
   \<and> e_data (ApiError sc msg es st) = None
   \<and> (rc < 400 \<longrightarrow> r_success (ApiResponse rc d m) = True)
   \<and> http_status (errorHandler env (ApiErr e)) = e_statusCode e
   \<and> http_status (errorHandler env err) = b_statusCode (http_body (errorHandler env err))
   \<and> b_success (http_body (errorHandler env (ApiErr (ApiError sc msg es st)))) = False
   \<and> b_success (http_body (errorHandler env (NativeErr n))) = False"
  by (simp add: errorHandler_def ApiError_def ApiResponse_def Let_def)

theorem error_responses_never_successful_witness:
  "r_success (ApiResponse 200 (0::nat) ''ok'') = True
   \<and> http_status (errorHandler None (ApiErr (ApiError 404 ''Note not found'' [] []))) = 404
   \<and> b_success (http_body (errorHandler None (ApiErr (ApiError 404 ''Note not found'' [] [])))) = False"
  using error_responses_never_successful
    [of 404 "''Note not found''" "[]" "[]" 200 "0::nat" "''ok''" None
        "ApiError 404 ''Note not found'' [] []" "NativeErr cast_error" cast_error]
  by (simp add: ApiError_def)

section \<open>Properties of the note router\<close>

lemma matches_segments_length: "matches_segments pat ss \<Longrightarrow> length ss = length pat"
  by (induction pat ss rule: matches_segments.induct) simp_all

lemma matches_length: "matches pat path \<Longrightarrow> length (strip_slash path) = length pat"
  by (simp add: matches_def matches_segments_length)

lemma note_patterns_disjoint:
  "\<not> (matches [Param a] path \<and> matches [Param b, Lit c, Param d] path)"
  using matches_length [of "[Param a]" path] matches_length [of "[Param b, Lit c, Param d]" path]
  by auto

lemma chain_noteRouter_hd: "\<exists>rest. chain noteRouter m path = verifyJWT # rest"
  by (simp add: chain_def noteRouter_def)

lemma chain_noteRouter:
  "chain noteRouter m path = verifyJWT # rest \<Longrightarrow>
   rest \<in> {[],
     [validateProjectPermission AvailableUserRoles, Handler GetNotes],
     [validateProjectPermission [ADMIN], notesValidator, validate, Handler CreateNote],
     [validateProjectPermission AvailableUserRoles, Handler GetNoteById],
     [validateProjectPermission [ADMIN], notesValidator, validate, Handler UpdateNote],
     [validateProjectPermission [ADMIN], Handler DeleteNote]}"
  using note_patterns_disjoint [of "''projectId''" path "''projectId''" "''n''" "''noteId''"]
  by (cases m) (auto simp: chain_def noteRouter_def split: if_splits)

text \<open>
  A function in the trace was registered at that place, and every function before it
  called \<^verbatim>\<open>next()\<close>.
\<close>

lemma run_split:
  "run out fs = pre @ f # post \<Longrightarrow>
     (\<exists>rest. fs = pre @ f # rest) \<and> (\<forall>g \<in> set pre. out g = Next)"
proof (induction fs arbitrary: pre)
  case Nil
  then show ?case by simp
next
  case (Cons h hs)
  show ?case
  proof (cases pre)
    case Nil
    with Cons.prems show ?thesis by simp
  next
    case pre: (Cons p ps)
    from Cons.prems pre have hp: "h = p"
      by simp
    from Cons.prems pre have n: "out h = Next"
      by (cases "out h") simp_all
    with Cons.prems pre have "run out hs = ps @ f # post"
      by simp
    from Cons.IH [OF this] hp n pre show ?thesis
      by auto
  qed
qed

lemma run_prefix: "run out fs = pre @ f # post \<Longrightarrow> \<exists>rest. fs = pre @ f # rest"
  using run_split by blast

lemma run_passed: "run out fs = pre @ f # post \<Longrightarrow> g \<in> set pre \<Longrightarrow> out g = Next"
  using run_split by blast

lemma run_stops: "out f \<noteq> Next \<Longrightarrow> run out (f # fs) = [f]"
  by (cases "out f") simp_all

lemma validator_guarded:
  assumes "verifyJWT # rest = pre @ v # later" "v = notesValidator \<or> v = validate"
    and "rest \<in> {[],
     [validateProjectPermission AvailableUserRoles, Handler GetNotes],
     [validateProjectPermission [ADMIN], notesValidator, validate, Handler CreateNote],
     [validateProjectPermission AvailableUserRoles, Handler GetNoteById],
     [validateProjectPermission [ADMIN], notesValidator, validate, Handler UpdateNote],
     [validateProjectPermission [ADMIN], Handler DeleteNote]}"
  shows "verifyJWT \<in> set pre \<and> validateProjectPermission [ADMIN] \<in> set pre"
  using assms by (auto simp: Cons_eq_append_conv append_eq_Cons_conv)

text \<open>
  C3. On every note route, for every method and path: when \<^verbatim>\<open>verifyJWT\<close> does not call
  \<^verbatim>\<open>next()\<close>, nothing but \<^verbatim>\<open>verifyJWT\<close> is invoked; and whenever \<^verbatim>\<open>notesValidator\<close> or
  \<^verbatim>\<open>validate\<close> is invoked, \<^verbatim>\<open>verifyJWT\<close> and \<^verbatim>\<open>validateProjectPermission\<close> were invoked
  before it and both called \<^verbatim>\<open>next()\<close>.
\<close>

theorem validators_only_after_auth:
  "(out verifyJWT \<noteq> Next \<longrightarrow> run out (chain noteRouter m path) = [verifyJWT])
   \<and> (run out (chain noteRouter m path) = pre @ v # post \<longrightarrow>
        v = notesValidator \<or> v = validate \<longrightarrow>
          verifyJWT \<in> set pre \<and> out verifyJWT = Next
          \<and> validateProjectPermission [ADMIN] \<in> set pre
          \<and> out (validateProjectPermission [ADMIN]) = Next)"
proof -
  obtain rest where c: "chain noteRouter m path = verifyJWT # rest"
    using chain_noteRouter_hd by blast
  have first: "out verifyJWT \<noteq> Next \<longrightarrow> run out (chain noteRouter m path) = [verifyJWT]"
    using c run_stops by simp
  have second: "verifyJWT \<in> set pre \<and> out verifyJWT = Next
          \<and> validateProjectPermission [ADMIN] \<in> set pre
          \<and> out (validateProjectPermission [ADMIN]) = Next"
    if r: "run out (chain noteRouter m path) = pre @ v # post"
      and v: "v = notesValidator \<or> v = validate"
  proof -
    from run_prefix [OF r] c obtain later where "verifyJWT # rest = pre @ v # later"
      by auto
    from validator_guarded [OF this v chain_noteRouter [OF c]]
    have "verifyJWT \<in> set pre" "validateProjectPermission [ADMIN] \<in> set pre"
      by simp_all
    with run_passed [OF r] show ?thesis by simp
  qed
  from first second show ?thesis by blast
qed

theorem validators_only_after_auth_witness:
  "run jwt_rejected (chain noteRouter POST [''p1'']) = [verifyJWT]
   \<and> run all_pass (chain noteRouter POST [''p1''])
       = [verifyJWT, validateProjectPermission [ADMIN]] @ notesValidator # [validate, Handler CreateNote]
   \<and> all_pass verifyJWT = Next \<and> all_pass (validateProjectPermission [ADMIN]) = Next"
  using validators_only_after_auth [of jwt_rejected POST "[''p1'']"]
    validators_only_after_auth [of all_pass POST "[''p1'']"
      "[verifyJWT, validateProjectPermission [ADMIN]]" notesValidator "[validate, Handler CreateNote]"]
  by (simp add: jwt_rejected_def all_pass_def chain_def noteRouter_def matches_def strip_slash_def)



section \<open>Properties of the note controllers\<close>

text \<open>The id \<^verbatim>\<open>create\<close> stores a document under is the id of no document already there.\<close>

lemma fold_max_ge: "(a::nat) \<le> fold max xs a"
  by (induction xs arbitrary: a) (auto intro: order_trans [OF max.cobounded2])

lemma fold_max_upper: "x \<in> set xs \<Longrightarrow> (x::nat) \<le> fold max xs a"
proof (induction xs arbitrary: a)
  case Nil
  then show ?case by simp
next
  case (Cons y ys)
  show ?case
  proof (cases "x = y")
    case True
    have "y \<le> max y a" by simp
    also have "\<dots> \<le> fold max ys (max y a)" by (rule fold_max_ge)
    finally show ?thesis using True by simp
  next
    case False
    with Cons show ?thesis by simp
  qed
qed

lemma new_id_fresh: "new_id c \<notin> fst ` set c"
proof
  assume "new_id c \<in> fst ` set c"
  then have "new_id c \<in> set (map fst c)" by simp
  from fold_max_upper [OF this, of 0] show False
    by (simp add: new_id_def)
qed

lemma remove_first_absent: "i \<notin> fst ` set c \<Longrightarrow> remove_first i c = c"
  by (induction c) auto

lemma findByObjectId_absent: "i \<notin> fst ` set c \<Longrightarrow> findByObjectId c i = None"
  by (simp add: findByObjectId_def map_of_eq_None_iff)

lemma findByObjectId_update_first:
  "findByObjectId (update_first i f c) i = map_option (\<lambda>d. (i, f (snd d))) (findByObjectId c i)"
  by (induction c) (auto simp: findByObjectId_def)

lemma remove_first_gone: "distinct (map fst c) \<Longrightarrow> i \<notin> fst ` set (remove_first i c)"
proof (induction c)
  case Nil
  then show ?case by simp
next
  case (Cons d c)
  show ?case
  proof (cases "fst d = i")
    case True
    with Cons.prems show ?thesis by simp
  next
    case False
    with Cons show ?thesis by auto
  qed
qed

lemma findByObjectId_remove_first:
  "distinct (map fst c) \<Longrightarrow> findByObjectId (remove_first i c) i = None"
  using remove_first_gone findByObjectId_absent by blast

text \<open>What the test cast makes of the id strings used below.\<close>

lemma objectId_examples:
  "objectId ''000000000000000000000001'' = Some 1"
  "objectId ''000000000000000000000003'' = Some 3"
  "objectId ''00000000000000000000000b'' = Some 11"
  "objectId ''00000000000000000000000c'' = Some 12"
  "objectId ''n7'' = None"
  by (simp_all add: objectId_def hex_digits_def)

text \<open>
  C6, as the code has it. When the \<^verbatim>\<open>projectId\<close> of the request is an ObjectId and the id
  of no project, \<^verbatim>\<open>getNotes\<close> and \<^verbatim>\<open>createNote\<close> throw the \<^verbatim>\<open>ApiError\<close> 404 ``Project not
  found'' and leave the database as it was (no note is created). When the \<^verbatim>\<open>noteId\<close> is an
  ObjectId and the id of no note, \<^verbatim>\<open>updateNote\<close>, \<^verbatim>\<open>deleteNote\<close> and \<^verbatim>\<open>getNoteById\<close> throw
  the \<^verbatim>\<open>ApiError\<close> 404 ``Note not found'' and leave the database as it was. When the id is
  no ObjectId, each of them fails with the cast error of the query and leaves the database
  as it was. The error handler answers the former with status 404, the latter with 400.
\<close>

theorem missing_resource_is_404:
  "(cast (param_projectId req) = Some i \<and> i \<notin> fst ` set (Project st) \<longrightarrow>
      getNotes cast req st = (Inl (ApiErr (ApiError 404 ''Project not found'' [] [])), st)
      \<and> createNote cast req st = (Inl (ApiErr (ApiError 404 ''Project not found'' [] [])), st))
   \<and> (cast (param_noteId req) = Some j \<and> j \<notin> fst ` set (ProjectNote st) \<longrightarrow>
      updateNote cast req st = (Inl (ApiErr (ApiError 404 ''Note not found'' [] [])), st)
      \<and> deleteNote cast req st = (Inl (ApiErr (ApiError 404 ''Note not found'' [] [])), st)
      \<and> getNoteById cast req st = (Inl (ApiErr (ApiError 404 ''Note not found'' [] [])), st))
   \<and> (cast (param_projectId req) = None \<longrightarrow>
      getNotes cast req st = (Inl (NativeErr cast_error), st)
      \<and> createNote cast req st = (Inl (NativeErr cast_error), st))
   \<and> (cast (param_noteId req) = None \<longrightarrow>
      updateNote cast req st = (Inl (NativeErr cast_error), st)
      \<and> deleteNote cast req st = (Inl (NativeErr cast_error), st)
      \<and> getNoteById cast req st = (Inl (NativeErr cast_error), st))
   \<and> e_statusCode (ApiError 404 msg [] []) = 404
   \<and> http_status (errorHandler env (ApiErr (ApiError 404 msg [] []))) = 404
   \<and> http_status (errorHandler env (NativeErr cast_error)) = 400"
proof -
  have p: "getNotes cast req st = (Inl (ApiErr (ApiError 404 ''Project not found'' [] [])), st)
      \<and> createNote cast req st = (Inl (ApiErr (ApiError 404 ''Project not found'' [] [])), st)"
    if "cast (param_projectId req) = Some i" "i \<notin> fst ` set (Project st)"
    using that(1) findByObjectId_absent [OF that(2)]
    by (simp add: getNotes_def createNote_def findById_def Let_def)
  have n: "updateNote cast req st = (Inl (ApiErr (ApiError 404 ''Note not found'' [] [])), st)
      \<and> deleteNote cast req st = (Inl (ApiErr (ApiError 404 ''Note not found'' [] [])), st)
      \<and> getNoteById cast req st = (Inl (ApiErr (ApiError 404 ''Note not found'' [] [])), st)"
    if "cast (param_noteId req) = Some j" "j \<notin> fst ` set (ProjectNote st)"
    using that findByObjectId_absent [OF that(2)]
    by (simp add: updateNote_def deleteNote_def getNoteById_def findById_def
        findByIdAndDelete_def remove_first_absent Let_def)
  have pc: "getNotes cast req st = (Inl (NativeErr cast_error), st)
      \<and> createNote cast req st = (Inl (NativeErr cast_error), st)"
    if "cast (param_projectId req) = None"
    using that by (simp add: getNotes_def createNote_def findById_def Let_def)
  have nc: "updateNote cast req st = (Inl (NativeErr cast_error), st)
      \<and> deleteNote cast req st = (Inl (NativeErr cast_error), st)
      \<and> getNoteById cast req st = (Inl (NativeErr cast_error), st)"
    if "cast (param_noteId req) = None"
    using that
    by (simp add: updateNote_def deleteNote_def getNoteById_def findById_def
        findByIdAndDelete_def Let_def)
  have e: "e_statusCode (ApiError 404 msg [] []) = 404
     \<and> http_status (errorHandler env (ApiErr (ApiError 404 msg [] []))) = 404
     \<and> http_status (errorHandler env (NativeErr cast_error)) = 400"
    by (simp add: errorHandler_def ApiError_def cast_error_def Let_def)
  from p n pc nc e show ?thesis by blast
qed

theorem missing_resource_is_404_witness:
  "objectId (param_projectId (req0\<lparr>param_projectId := ''000000000000000000000003''\<rparr>)) = Some 3
   \<and> 3 \<notin> fst ` set (Project db0)
   \<and> createNote objectId (req0\<lparr>param_projectId := ''000000000000000000000003''\<rparr>) db0
       = (Inl (ApiErr (ApiError 404 ''Project not found'' [] [])), db0)
   \<and> objectId (param_noteId (req0\<lparr>param_noteId := ''00000000000000000000000c''\<rparr>)) = Some 12
   \<and> 12 \<notin> fst ` set (ProjectNote db0)
   \<and> deleteNote objectId (req0\<lparr>param_noteId := ''00000000000000000000000c''\<rparr>) db0
       = (Inl (ApiErr (ApiError 404 ''Note not found'' [] [])), db0)
   \<and> objectId (param_noteId (req0\<lparr>param_noteId := ''n7''\<rparr>)) = None
   \<and> updateNote objectId (req0\<lparr>param_noteId := ''n7''\<rparr>) db0 = (Inl (NativeErr cast_error), db0)"
proof -
  have h1: "objectId (param_projectId (req0\<lparr>param_projectId := ''000000000000000000000003''\<rparr>)) = Some 3"
    by (simp add: objectId_examples)
  have h2: "3 \<notin> fst ` set (Project db0)"
    by (simp add: db0_def)
  have h3: "objectId (param_noteId (req0\<lparr>param_noteId := ''00000000000000000000000c''\<rparr>)) = Some 12"
    by (simp add: objectId_examples)
  have h4: "12 \<notin> fst ` set (ProjectNote db0)"
    by (simp add: db0_def)
  have h5: "objectId (param_noteId (req0\<lparr>param_noteId := ''n7''\<rparr>)) = None"
    by (simp add: objectId_examples)
  from missing_resource_is_404
      [where cast = objectId and req = "req0\<lparr>param_projectId := ''000000000000000000000003''\<rparr>"
         and st = db0 and i = 3]
    missing_resource_is_404
      [where cast = objectId and req = "req0\<lparr>param_noteId := ''00000000000000000000000c''\<rparr>"
         and st = db0 and j = 12]
    missing_resource_is_404
      [where cast = objectId and req = "req0\<lparr>param_noteId := ''n7''\<rparr>" and st = db0]
    h1 h2 h3 h4 h5
  show ?thesis by blast
qed

text \<open>
  C6 for every request does not hold: the \<^verbatim>\<open>noteId\<close> \<^verbatim>\<open>n7\<close> is no ObjectId, hence the id
  of no note, and \<^verbatim>\<open>getNoteById\<close> fails with the cast error of the query, not with a 404
  \<^verbatim>\<open>ApiError\<close>; the error handler answers it with status 400.
\<close>

theorem malformed_noteId_not_404:
  "objectId ''n7'' = None
   \<and> fst (getNoteById objectId (req0\<lparr>param_noteId := ''n7''\<rparr>) db0) = Inl (NativeErr cast_error)
   \<and> fst (getNoteById objectId (req0\<lparr>param_noteId := ''n7''\<rparr>) db0)
       \<noteq> Inl (ApiErr (ApiError 404 ''Note not found'' [] []))
   \<and> http_status (errorHandler None (NativeErr cast_error)) = 400"
  by (simp add: objectId_examples getNoteById_def findById_def req0_def errorHandler_def
      ApiError_def cast_error_def Let_def)

text \<open>
  C9. \<^verbatim>\<open>getNoteById\<close>, \<^verbatim>\<open>updateNote\<close> and \<^verbatim>\<open>deleteNote\<close> give the same result and the same
  database for two requests that differ in \<^verbatim>\<open>projectId\<close> only. Hence, when the \<^verbatim>\<open>noteId\<close>
  names a note \<open>d\<close> of a project other than the \<^verbatim>\<open>projectId\<close> of the request,
  \<^verbatim>\<open>getNoteById\<close> returns \<open>d\<close>, \<^verbatim>\<open>updateNote\<close> overwrites its content and \<^verbatim>\<open>deleteNote\<close>
  removes it (note ids being unique in the collection).
\<close>

theorem note_operations_ignore_projectId:
  "getNoteById cast (req\<lparr>param_projectId := p\<rparr>) st
     = getNoteById cast (req\<lparr>param_projectId := p'\<rparr>) st
   \<and> updateNote cast (req\<lparr>param_projectId := p\<rparr>) st
     = updateNote cast (req\<lparr>param_projectId := p'\<rparr>) st
   \<and> deleteNote cast (req\<lparr>param_projectId := p\<rparr>) st
     = deleteNote cast (req\<lparr>param_projectId := p'\<rparr>) st
   \<and> (cast (param_noteId req) = Some i \<longrightarrow>
        findByObjectId (ProjectNote st) i = Some (i, d) \<longrightarrow>
        cast (param_projectId req) \<noteq> Some (note_project d) \<longrightarrow>
        distinct (map fst (ProjectNote st)) \<longrightarrow>
          fst (getNoteById cast req st)
            = Inr \<lparr> http_status = 200,
                    http_body =
                      ApiResponse 200 (PopulatedNote (Some (populate (User st) (i, d))))
                        ''Note fetched successfully'' \<rparr>
          \<and> findByObjectId (ProjectNote (snd (updateNote cast req st))) i
              = Some (i, d\<lparr>note_content := body_content req\<rparr>)
          \<and> findByObjectId (ProjectNote (snd (deleteNote cast req st))) i = None)"
proof -
  have same: "getNoteById cast (req\<lparr>param_projectId := p\<rparr>) st
     = getNoteById cast (req\<lparr>param_projectId := p'\<rparr>) st
   \<and> updateNote cast (req\<lparr>param_projectId := p\<rparr>) st
     = updateNote cast (req\<lparr>param_projectId := p'\<rparr>) st
   \<and> deleteNote cast (req\<lparr>param_projectId := p\<rparr>) st
     = deleteNote cast (req\<lparr>param_projectId := p'\<rparr>) st"
    by (simp add: getNoteById_def updateNote_def deleteNote_def)
  have other: "fst (getNoteById cast req st)
            = Inr \<lparr> http_status = 200,
                    http_body =
                      ApiResponse 200 (PopulatedNote (Some (populate (User st) (i, d))))
                        ''Note fetched successfully'' \<rparr>
          \<and> findByObjectId (ProjectNote (snd (updateNote cast req st))) i
              = Some (i, d\<lparr>note_content := body_content req\<rparr>)
          \<and> findByObjectId (ProjectNote (snd (deleteNote cast req st))) i = None"
    if "cast (param_noteId req) = Some i"
      and "findByObjectId (ProjectNote st) i = Some (i, d)"
      and "distinct (map fst (ProjectNote st))"
    using that
    by (simp add: getNoteById_def updateNote_def deleteNote_def findById_def
        findByIdAndUpdate_def findByIdAndDelete_def findByObjectId_update_first
        findByObjectId_remove_first Let_def)
  from same other show ?thesis by blast
qed

theorem note_operations_ignore_projectId_witness:
  "objectId (param_noteId req0) = Some 11
   \<and> findByObjectId (ProjectNote db0) 11 = Some (11, note11)
   \<and> objectId (param_projectId req0) \<noteq> Some (note_project note11)
   \<and> distinct (map fst (ProjectNote db0))
   \<and> findByObjectId (ProjectNote (snd (updateNote objectId req0 db0))) 11
       = Some (11, note11\<lparr>note_content := body_content req0\<rparr>)
   \<and> findByObjectId (ProjectNote (snd (deleteNote objectId req0 db0))) 11 = None"
proof -
  have h0: "objectId (param_noteId req0) = Some 11"
    by (simp add: req0_def objectId_examples)
  have h1: "findByObjectId (ProjectNote db0) 11 = Some (11, note11)"
    by (simp add: db0_def note11_def findByObjectId_def)
  have h2: "objectId (param_projectId req0) \<noteq> Some (note_project note11)"
    by (simp add: req0_def note11_def objectId_examples)
  have h3: "distinct (map fst (ProjectNote db0))"
    by (simp add: db0_def)
  from note_operations_ignore_projectId
    [where cast = objectId and req = req0 and st = db0 and d = note11 and i = 11
       and p = "''000000000000000000000001''" and p' = "''000000000000000000000002''"]
    h0 h1 h2 h3
  show ?thesis by blast
qed

section \<open>Properties of the permission gate and the credential verifier\<close>

lemma find_unique:
  "distinct (map k xs) \<Longrightarrow> x \<in> set xs \<Longrightarrow> List.find (\<lambda>y. k y = k x) xs = Some x"
proof (induction xs)
  case Nil
  then show ?case by simp
next
  case (Cons y ys)
  show ?case
  proof (cases "y = x")
    case True
    then show ?thesis by simp
  next
    case False
    with Cons.prems have "x \<in> set ys" "k y \<noteq> k x"
      by auto
    with Cons show ?thesis by simp
  qed
qed

lemma lookup_Some:
  assumes "unique_membership tbl"
  shows "(lookup tbl u p = Some r)
     = (\<exists>m \<in> set tbl. m_user m = u \<and> m_project m = p \<and> m_role m = r)"
proof
  assume "lookup tbl u p = Some r"
  then obtain m where "List.find (\<lambda>m. m_user m = u \<and> m_project m = p) tbl = Some m" "m_role m = r"
    by (auto simp: lookup_def)
  then show "\<exists>m \<in> set tbl. m_user m = u \<and> m_project m = p \<and> m_role m = r"
    by (auto simp: find_Some_iff)
next
  assume "\<exists>m \<in> set tbl. m_user m = u \<and> m_project m = p \<and> m_role m = r"
  then obtain m where m: "m \<in> set tbl" "m_user m = u" "m_project m = p" "m_role m = r"
    by blast
  from assms have "distinct (map (\<lambda>m. (m_user m, m_project m)) tbl)"
    by (simp add: unique_membership_def)
  from find_unique [OF this m(1)] m(2,3)
  have "List.find (\<lambda>y. m_user y = u \<and> m_project y = p) tbl = Some m"
    by simp
  with m(4) show "lookup tbl u p = Some r"
    by (simp add: lookup_def)
qed

lemma lookup_None:
  "(lookup tbl u p = None) = (\<not> (\<exists>m \<in> set tbl. m_user m = u \<and> m_project m = p))"
  by (auto simp: lookup_def find_None_iff)

text \<open>
  C1. On a membership table with at most one row per (user, project) pair, \<open>authorize\<close>
  returns \<open>Allow r\<close> exactly when the table has a row for (identity, projectId) whose role
  is \<open>r\<close> and \<open>r\<close> is in \<open>allowedRoles\<close>; it returns \<open>Deny NotAMember\<close> exactly when the
  table has no row for the pair, and \<open>Deny InsufficientRole\<close> exactly when the row's role
  is outside \<open>allowedRoles\<close>.
\<close>

theorem authorize_decision:
  "unique_membership tbl \<Longrightarrow>
     ((fst (authorize tbl i p rs) = Allow r)
        = (\<exists>m \<in> set tbl. m_user m = i \<and> m_project m = p \<and> m_role m = r \<and> r \<in> rs))
     \<and> ((fst (authorize tbl i p rs) = Deny NotAMember)
        = (\<not> (\<exists>m \<in> set tbl. m_user m = i \<and> m_project m = p)))
     \<and> ((fst (authorize tbl i p rs) = Deny InsufficientRole)
        = (\<exists>m \<in> set tbl. m_user m = i \<and> m_project m = p \<and> m_role m \<notin> rs))"
proof -
  assume u: "unique_membership tbl"
  show ?thesis
  proof (cases "lookup tbl i p")
    case None
    then have "fst (authorize tbl i p rs) = Deny NotAMember"
      by (simp add: authorize_def)
    moreover from None have "\<not> (\<exists>m \<in> set tbl. m_user m = i \<and> m_project m = p)"
      by (simp add: lookup_None)
    ultimately show ?thesis by auto
  next
    case (Some q)
    then have a: "fst (authorize tbl i p rs) = (if q \<notin> rs then Deny InsufficientRole else Allow q)"
      by (simp add: authorize_def)
    have only: "(\<exists>m \<in> set tbl. m_user m = i \<and> m_project m = p \<and> m_role m = r') = (r' = q)" for r'
      using lookup_Some [OF u, of i p r'] Some by auto
    have ex: "\<exists>m \<in> set tbl. m_user m = i \<and> m_project m = p"
      using only [of q] by blast
    have r1: "(fst (authorize tbl i p rs) = Allow r) = (r = q \<and> r \<in> rs)"
      using a by auto
    have r3: "(fst (authorize tbl i p rs) = Deny InsufficientRole) = (q \<notin> rs)"
      using a by auto
    have e1: "(\<exists>m \<in> set tbl. m_user m = i \<and> m_project m = p \<and> m_role m = r \<and> r \<in> rs)
       = (r = q \<and> r \<in> rs)"
      using only [of r] by blast
    have e3: "(\<exists>m \<in> set tbl. m_user m = i \<and> m_project m = p \<and> m_role m \<notin> rs) = (q \<notin> rs)"
    proof
      assume "\<exists>m \<in> set tbl. m_user m = i \<and> m_project m = p \<and> m_role m \<notin> rs"
      then obtain m where "m \<in> set tbl" "m_user m = i" "m_project m = p" "m_role m \<notin> rs"
        by blast
      with only [of "m_role m"] show "q \<notin> rs" by auto
    next
      assume "q \<notin> rs"
      with only [of q] show "\<exists>m \<in> set tbl. m_user m = i \<and> m_project m = p \<and> m_role m \<notin> rs"
        by auto
    qed
    have r2: "fst (authorize tbl i p rs) \<noteq> Deny NotAMember"
      using a by auto
    from r1 r2 r3 e1 e3 ex show ?thesis by simp
  qed
qed

theorem authorize_decision_witness:
  "unique_membership tbl0
   \<and> fst (authorize tbl0 5 1 {ADMIN}) = Allow ADMIN
   \<and> fst (authorize tbl0 5 2 {ADMIN}) = Deny InsufficientRole
   \<and> fst (authorize tbl0 5 3 {ADMIN}) = Deny NotAMember"
proof -
  have u: "unique_membership tbl0"
    by (simp add: unique_membership_def tbl0_def)
  from authorize_decision [OF u, of 5 1 "{ADMIN}" ADMIN]
    authorize_decision [OF u, of 5 2 "{ADMIN}" ADMIN]
    authorize_decision [OF u, of 5 3 "{ADMIN}" ADMIN] u
  show ?thesis by (simp add: tbl0_def)
qed

text \<open>
  C7. \<open>authorize\<close> leaves the membership table as it found it, and a second call with the
  same arguments, on the table the first call left, gives the same result.
\<close>

theorem authorize_idempotent:
  "snd (authorize tbl i p rs) = tbl
   \<and> authorize (snd (authorize tbl i p rs)) i p rs = authorize tbl i p rs"
  by (simp add: authorize_def split: option.splits)

theorem authorize_idempotent_witness:
  "snd (authorize tbl0 5 2 {ADMIN}) = tbl0
   \<and> authorize (snd (authorize tbl0 5 2 {ADMIN})) 5 2 {ADMIN} = (Deny InsufficientRole, tbl0)"
  using authorize_idempotent [of tbl0 5 2 "{ADMIN}"]
  by (simp add: authorize_def lookup_def tbl0_def)

text \<open>
  C4. A credential that is missing, malformed, wrongly signed or expired makes \<open>verify\<close>
  fail with \<open>Unauthenticated\<close>; a malformed and an expired token give the same result;
  and \<open>Unauthenticated\<close> is the only failure \<open>verify\<close> has.
\<close>

theorem verify_unauthenticated:
  "((credential = None
      \<or> (\<exists>t. credential = Some t \<and> decode t = None)
      \<or> (\<exists>t tok. credential = Some t \<and> decode t = Some tok
            \<and> (\<not> tok_signature_ok tok \<or> tok_exp tok < now)))
     \<longrightarrow> verify decode now credential = Inl Unauthenticated)
   \<and> (inspect decode now c1 = Inl Malformed \<longrightarrow> inspect decode now c2 = Inl Expired \<longrightarrow>
        verify decode now c1 = verify decode now c2)
   \<and> (\<forall>e. verify decode now credential = Inl e \<longrightarrow> e = Unauthenticated)"
  by (auto simp: verify_def inspect_def intro: auth_error.exhaust)

theorem verify_unauthenticated_witness:
  "inspect decode0 500 (Some ''junk'') = Inl Malformed
   \<and> inspect decode0 500 (Some ''old'') = Inl Expired
   \<and> verify decode0 500 (Some ''junk'') = Inl Unauthenticated
   \<and> verify decode0 500 (Some ''old'') = Inl Unauthenticated
   \<and> verify decode0 500 None = Inl Unauthenticated"
proof -
  have m: "inspect decode0 500 (Some ''junk'') = Inl Malformed"
    by (simp add: inspect_def decode0_def)
  have e: "inspect decode0 500 (Some ''old'') = Inl Expired"
    by (simp add: inspect_def decode0_def)
  have d: "decode0 ''junk'' = None"
    by (simp add: decode0_def)
  from verify_unauthenticated [of "Some ''junk''" decode0 500 "Some ''junk''" "Some ''old''"]
    verify_unauthenticated [of None decode0 500 "Some ''junk''" "Some ''old''"] m e d
  show ?thesis by simp
qed

end
